theory Spec2Isabelle
  imports Main "HOL-Library.Sublist" "HOL-Library.Multiset"
begin

section \<open>The server list endpoint of djchat (server/views.py)\<close>

text \<open>
  \<open>ServerListViewSet.list\<close> reads five query parameters, checks the requester, and then
  reassigns \<open>self.queryset\<close> step by step: category filter, quantity slice, membership
  filter, member-count annotation, lookup by id. The model below follows the method
  statement by statement. The class attribute \<open>queryset\<close> and the instance attribute
  that the assignments create are threaded explicitly, every \<open>raise\<close> is a value of type
  \<open>error\<close>, and the final result pairs the outcome with the two attributes.
\<close>

subsection \<open>Data\<close>

text \<open>
  Modelled from the spec: the models \<open>Server\<close> and \<open>Category\<close>, whose declarations
  (server/models.py) are not among the sources. A server has the primary key \<open>id\<close>, a
  category with a \<open>name\<close> (the lookup \<open>category__name\<close> of the view) and the user ids
  of its \<open>member\<close> relation.
\<close>

record category =
  name :: string

record server =
  server_id :: int
  category :: category
  member_ids :: "int list"

text \<open>
  The database as the queries of the view see it: \<open>table\<close> lists the servers in the order
  in which a select without grouping returns them, and \<open>grouped_order\<close> is the order in
  which the database returns the groups of a select with \<open>GROUP BY\<close> (no query of the view
  has an \<open>ORDER BY\<close>, so this order is the database's choice).
\<close>

record db =
  table :: "server list"
  grouped_order :: "server list \<Rightarrow> server list"

text \<open>\<open>request.user\<close>: an anonymous requester has no id and is not authenticated.\<close>

datatype user = AnonymousUser | User int

fun is_authenticated :: "user \<Rightarrow> bool" where
  "is_authenticated AnonymousUser = False"
| "is_authenticated (User uid) = True"

fun user_id :: "user \<Rightarrow> int option" where
  "user_id AnonymousUser = None"
| "user_id (User uid) = Some uid"

text \<open>
  \<open>request.query_params\<close> is read only through \<open>get\<close>, which yields the value of a key
  or \<open>None\<close>: a partial map from keys to strings.
\<close>

record request =
  query_params :: "string \<rightharpoonup> string"
  user :: user

text \<open>
  The exceptions that can leave the method. \<open>AuthenticationFailed\<close> and
  \<open>ValidationError\<close> are raised by the view itself; \<open>ValueError\<close> comes from \<open>int\<close> and
  from a negative slice bound, \<open>TypeError\<close> from filtering a sliced queryset,
  \<open>AttributeError\<close> from calling a queryset method on a list, and \<open>DatabaseError\<close> from
  the database when it refuses a query.
\<close>

datatype error =
    AuthenticationFailed string
  | ValidationError string
  | ValueError string
  | TypeError string
  | AttributeError string
  | DatabaseError string

subsection \<open>The conversion \<open>int(s)\<close> of a string\<close>

text \<open>
  \<open>int\<close> on a string strips surrounding whitespace, reads an optional sign and then
  decimal digits, where single underscores may separate digits; anything else raises
  \<open>ValueError\<close> (here \<open>None\<close>), and so does a literal of more than 4300 digits (the
  interpreter's default limit). Strings are sequences of code points below 256; there the
  characters that \<open>int\<close> strips are 9 to 13, 32, 133 and 160, and the decimal digits are
  \<open>0\<close> to \<open>9\<close>.
\<close>

definition is_space :: "char \<Rightarrow> bool" where
  "is_space c =
     (let n = (of_char c :: nat)
      in (9 \<le> n \<and> n \<le> 13) \<or> n = 32 \<or> n = 133 \<or> n = 160)"

definition strip :: "string \<Rightarrow> string" where
  "strip s = rev (dropWhile is_space (rev (dropWhile is_space s)))"

definition digit_of :: "char \<Rightarrow> nat option" where
  "digit_of c =
     (let n = (of_char c :: nat)
      in if 48 \<le> n \<and> n \<le> 57 then Some (n - 48) else None)"

text \<open>\<open>digits_val acc s\<close> reads the rest of a literal after a digit.\<close>

fun digits_val :: "nat \<Rightarrow> string \<Rightarrow> nat option" where
  "digits_val acc [] = Some acc"
| "digits_val acc [c] =
     (case digit_of c of None \<Rightarrow> None | Some v \<Rightarrow> Some (10 * acc + v))"
| "digits_val acc (c # d # ds) =
     (if c = CHR ''_''
      then (case digit_of d of None \<Rightarrow> None | Some v \<Rightarrow> digits_val (10 * acc + v) ds)
      else (case digit_of c of None \<Rightarrow> None | Some v \<Rightarrow> digits_val (10 * acc + v) (d # ds)))"

definition int_max_str_digits :: nat where
  "int_max_str_digits = 4300"

definition py_digits :: "string \<Rightarrow> nat option" where
  "py_digits s =
     (if int_max_str_digits < length (filter (\<lambda>c. digit_of c \<noteq> None) s) then None
      else case s of
             [] \<Rightarrow> None
           | c # cs \<Rightarrow> (case digit_of c of None \<Rightarrow> None | Some v \<Rightarrow> digits_val v cs))"

definition py_int :: "string \<Rightarrow> int option" where
  "py_int s =
     (case strip s of
        [] \<Rightarrow> None
      | c # cs \<Rightarrow>
          if c = CHR ''-'' then map_option (\<lambda>n. - int n) (py_digits cs)
          else if c = CHR ''+'' then map_option int (py_digits cs)
          else map_option int (py_digits (c # cs)))"

text \<open>Truth value of an optional string in a condition: \<open>None\<close> and \<open>""\<close> are false.\<close>

fun truthy :: "string option \<Rightarrow> bool" where
  "truthy None = False"
| "truthy (Some s) = (s \<noteq> [])"

subsection \<open>The queryset operations the view calls\<close>

text \<open>
  A queryset is a query that has not run yet: the condition of its \<open>WHERE\<close> clause, the
  upper bound of a slice when one has been taken, whether the member count is annotated
  (which makes the query a grouped one), and the result cache that the first evaluation
  fills. A row is a server with the value of the annotation \<open>num_members\<close> when there is
  one.
\<close>

record row =
  obj :: server
  num_members :: "nat option"

record queryset =
  where_cond :: "server \<Rightarrow> bool"
  high_mark :: "int option"
  annotated :: bool
  result_cache :: "row list option"

text \<open>
  What \<open>self.queryset\<close> can hold: a queryset, or a plain list, which is what slicing a
  queryset with a filled result cache returns.
\<close>

datatype attr = QuerySet queryset | PyList "row list"

text \<open>
  \<open>Server.objects.all()\<close>, evaluated once when the class is created (line 54). The
  object lives as long as the class, so a request finds in it the result cache that an
  earlier request has filled, if any: the servers of that earlier moment.
\<close>

definition objects_all :: "server list option \<Rightarrow> queryset" where
  "objects_all cache =
     \<lparr>where_cond = (\<lambda>s. True), high_mark = None, annotated = False,
      result_cache = map_option (map (\<lambda>s. \<lparr>obj = s, num_members = None\<rparr>)) cache\<rparr>"

text \<open>
  The attribute \<open>filter\<close>: a list has none; a queryset gives the method, which refuses
  a sliced queryset and otherwise returns a new queryset with the condition added.
\<close>

definition filter_method :: "attr \<Rightarrow> error + ((server \<Rightarrow> bool) \<Rightarrow> error + attr)" where
  "filter_method a =
     (case a of
        PyList xs \<Rightarrow> Inl (AttributeError ''list object has no attribute filter'')
      | QuerySet q \<Rightarrow>
          Inr (\<lambda>P. if high_mark q \<noteq> None
                   then Inl (TypeError ''Cannot filter a query once a slice has been taken.'')
                   else Inr (QuerySet (q\<lparr>where_cond := (\<lambda>s. where_cond q s \<and> P s),
                                         result_cache := None\<rparr>))))"

text \<open>
  \<open>a[:k]\<close>. A queryset refuses a negative bound; with a filled result cache it returns
  the slice of the cached list, and otherwise a new queryset with the bound. On a list,
  a negative bound counts from the end.
\<close>

definition slice_to :: "int \<Rightarrow> attr \<Rightarrow> error + attr" where
  "slice_to k a =
     (case a of
        PyList xs \<Rightarrow>
          Inr (PyList (if k < 0 then take (length xs - nat (- k)) xs else take (nat k) xs))
      | QuerySet q \<Rightarrow>
          if k < 0 then Inl (ValueError ''Negative indexing is not supported.'')
          else (case result_cache q of
                  Some xs \<Rightarrow> Inr (PyList (take (nat k) xs))
                | None \<Rightarrow>
                    Inr (QuerySet (q\<lparr>high_mark :=
                           Some (case high_mark q of None \<Rightarrow> k | Some h \<Rightarrow> min h k)\<rparr>))))"

text \<open>\<open>a.annotate(num_members=Count("member"))\<close>: a new, grouped queryset.\<close>

definition annotate_num_members :: "attr \<Rightarrow> error + attr" where
  "annotate_num_members a =
     (case a of
        PyList xs \<Rightarrow> Inl (AttributeError ''list object has no attribute annotate'')
      | QuerySet q \<Rightarrow> Inr (QuerySet (q\<lparr>annotated := True, result_cache := None\<rparr>)))"

text \<open>
  The rows a query selects: the servers of the table that satisfy the condition, in the
  order of the table or, for a grouped query, in the order of the groups; then the
  bound of the slice (\<open>LIMIT\<close> applies after the grouping); each row with its member
  count when annotated.
\<close>

definition take_limit :: "int option \<Rightarrow> 'a list \<Rightarrow> 'a list" where
  "take_limit h xs = (case h of None \<Rightarrow> xs | Some k \<Rightarrow> take (nat k) xs)"

definition select_rows :: "db \<Rightarrow> queryset \<Rightarrow> row list" where
  "select_rows d q =
     (let selected = filter (where_cond q) (table d);
          ordered = (if annotated q then grouped_order d selected else selected)
      in map (\<lambda>s. \<lparr>obj = s,
                    num_members = (if annotated q then Some (length (member_ids s)) else None)\<rparr>)
           (take_limit (high_mark q) ordered))"

text \<open>
  Evaluation of a queryset, as iterating over it does: the cached rows when there are
  some; otherwise the query runs, and the database refuses a bound that is not a 64-bit
  integer.
\<close>

definition fetch :: "db \<Rightarrow> queryset \<Rightarrow> error + row list" where
  "fetch d q =
     (case result_cache q of
        Some xs \<Rightarrow> Inr xs
      | None \<Rightarrow>
          (case high_mark q of
             None \<Rightarrow> Inr (select_rows d q)
           | Some k \<Rightarrow>
               if 9223372036854775807 < k then Inl (DatabaseError ''integer out of range'')
               else Inr (select_rows d q)))"

text \<open>
  \<open>a.exists()\<close>: from the result cache when it is filled, otherwise by a query for one
  row.
\<close>

definition exists_method :: "db \<Rightarrow> attr \<Rightarrow> error + bool" where
  "exists_method d a =
     (case a of
        PyList xs \<Rightarrow> Inl (AttributeError ''list object has no attribute exists'')
      | QuerySet q \<Rightarrow>
          (case result_cache q of
             Some xs \<Rightarrow> Inr (xs \<noteq> [])
           | None \<Rightarrow> Inr (take_limit (high_mark q) (filter (where_cond q) (table d)) \<noteq> [])))"

text \<open>
  The condition \<open>member=user_id\<close>: the user is among the members; for the id \<open>None\<close>
  of an anonymous user the lookup is an is-null test on the relation.
\<close>

fun member_is :: "int option \<Rightarrow> server \<Rightarrow> bool" where
  "member_is None s = (member_ids s = [])"
| "member_is (Some uid) s = (uid \<in> set (member_ids s))"

subsection \<open>Statements on \<open>self.queryset\<close>\<close>

text \<open>
  The two attributes behind \<open>self.queryset\<close>: the class attribute of line 54, and the
  instance attribute, which exists once the method has assigned to \<open>self.queryset\<close> and
  then hides the class attribute.
\<close>

record view =
  class_queryset :: queryset
  self_queryset :: "attr option"

definition read_queryset :: "view \<Rightarrow> attr" where
  "read_queryset v =
     (case self_queryset v of None \<Rightarrow> QuerySet (class_queryset v) | Some a \<Rightarrow> a)"

text \<open>
  A statement takes the current attributes and gives the exception it raised, if any,
  with the attributes at that point.
\<close>

type_synonym stmt = "view \<Rightarrow> error option \<times> view"

definition skip :: stmt where
  "skip v = (None, v)"

definition raise :: "error \<Rightarrow> stmt" where
  "raise e v = (Some e, v)"

text \<open>\<open>self.queryset = f(self.queryset)\<close>: nothing is assigned when \<open>f\<close> raises.\<close>

definition assign :: "(attr \<Rightarrow> error + attr) \<Rightarrow> stmt" where
  "assign f v =
     (case f (read_queryset v) of
        Inl e \<Rightarrow> (Some e, v)
      | Inr a \<Rightarrow> (None, v\<lparr>self_queryset := Some a\<rparr>))"

definition seq :: "stmt \<Rightarrow> stmt \<Rightarrow> stmt" where
  "seq s1 s2 v = (case s1 v of (Some e, v') \<Rightarrow> (Some e, v') | (None, v') \<Rightarrow> s2 v')"

text \<open>\<open>try: body except ValueError: handler\<close>.\<close>

definition try_except_ValueError :: "stmt \<Rightarrow> stmt \<Rightarrow> stmt" where
  "try_except_ValueError body handler v =
     (case body v of
        (Some (ValueError m), v') \<Rightarrow> handler v'
      | other \<Rightarrow> other)"

text \<open>\<open>int(s)\<close> as an expression that may raise.\<close>

definition int_of_param :: "string \<Rightarrow> error + int" where
  "int_of_param s =
     (case py_int s of
        None \<Rightarrow> Inl (ValueError ''invalid literal for int() with base 10'')
      | Some k \<Rightarrow> Inr k)"

text \<open>
  \<open>self.queryset.filter(cond)\<close> with a condition that cannot raise, and
  \<open>self.queryset.filter(id=int(s))\<close>, where the attribute is looked up before the
  argument is computed.
\<close>

definition filter_by :: "(server \<Rightarrow> bool) \<Rightarrow> attr \<Rightarrow> error + attr" where
  "filter_by P a = (case filter_method a of Inl e \<Rightarrow> Inl e | Inr m \<Rightarrow> m P)"

definition filter_by_id_param :: "string \<Rightarrow> attr \<Rightarrow> error + attr" where
  "filter_by_id_param s a =
     (case filter_method a of
        Inl e \<Rightarrow> Inl e
      | Inr m \<Rightarrow> (case int_of_param s of Inl e \<Rightarrow> Inl e | Inr k \<Rightarrow> m (\<lambda>x. server_id x = k)))"

text \<open>\<open>self.queryset[: int(s)]\<close>: the bound is computed before the slice is taken.\<close>

definition slice_to_param :: "string \<Rightarrow> attr \<Rightarrow> error + attr" where
  "slice_to_param s a = (case int_of_param s of Inl e \<Rightarrow> Inl e | Inr k \<Rightarrow> slice_to k a)"

text \<open>\<open>if not self.queryset.exists(): raise ValidationError("Server not found")\<close>.\<close>

definition raise_unless_exists :: "db \<Rightarrow> stmt" where
  "raise_unless_exists d v =
     (case exists_method d (read_queryset v) of
        Inl e \<Rightarrow> raise e v
      | Inr b \<Rightarrow> if \<not> b then raise (ValidationError ''Server not found'') v else skip v)"

subsection \<open>The view\<close>

text \<open>
  Modelled from the spec: the response. \<open>ServerSerializer\<close> (server/serializer.py) is not
  among the sources, so a response is what the view hands to it: the rows of the final
  \<open>self.queryset\<close> and the entry \<open>num_members\<close> of the serializer context.
\<close>

record response =
  instances :: "row list"
  context_num_members :: bool

definition by_user_of :: "request \<Rightarrow> bool" where
  "by_user_of request = (query_params request ''by_user'' = Some ''true'')"

definition with_num_members_of :: "request \<Rightarrow> bool" where
  "with_num_members_of request = (query_params request ''with_num_members'' = Some ''True'')"

text \<open>
  The condition of the first \<open>if\<close>. \<open>and\<close> binds tighter than \<open>or\<close>:
  \<open>by_user or (by_serverid and not request.user.is_authenticated)\<close>.
\<close>

definition auth_gate :: "request \<Rightarrow> bool" where
  "auth_gate request =
     (by_user_of request \<or>
      (truthy (query_params request ''by_serverid'') \<and> \<not> is_authenticated (user request)))"

definition list_body :: "db \<Rightarrow> request \<Rightarrow> stmt" where
  "list_body d request =
     (let category = query_params request ''category'';
          qty = query_params request ''qty'';
          by_user = by_user_of request;
          by_serverid = query_params request ''by_serverid'';
          with_num_members = with_num_members_of request
      in
        seq (if auth_gate request
             then raise (AuthenticationFailed ''You must be logged in to perform this action'')
             else skip)
       (seq (case category of
               None \<Rightarrow> skip
             | Some c \<Rightarrow> assign (filter_by (\<lambda>s. name (server.category s) = c)))
       (seq (case qty of
               None \<Rightarrow> skip
             | Some q \<Rightarrow> assign (slice_to_param q))
       (seq (if by_user
             then assign (filter_by (member_is (user_id (user request))))
             else skip)
       (seq (if with_num_members then assign annotate_num_members else skip)
            (case by_serverid of
               None \<Rightarrow> skip
             | Some sid \<Rightarrow>
                 try_except_ValueError
                   (seq (assign (filter_by_id_param sid)) (raise_unless_exists d))
                   (raise (ValidationError ''Invalid server id''))))))))"

text \<open>
  The serializer iterates over \<open>self.queryset\<close>: a list as it is, a queryset by
  evaluating it, which fills the result cache of that queryset object (the class
  attribute itself when the method has assigned nothing).
\<close>

definition fill_cache :: "row list \<Rightarrow> view \<Rightarrow> view" where
  "fill_cache xs v =
     (case self_queryset v of
        None \<Rightarrow> v\<lparr>class_queryset := (class_queryset v)\<lparr>result_cache := Some xs\<rparr>\<rparr>
      | Some (QuerySet q) \<Rightarrow> v\<lparr>self_queryset := Some (QuerySet (q\<lparr>result_cache := Some xs\<rparr>))\<rparr>
      | Some (PyList ys) \<Rightarrow> v)"

definition serialize :: "db \<Rightarrow> view \<Rightarrow> (error + row list) \<times> view" where
  "serialize d v =
     (case read_queryset v of
        PyList xs \<Rightarrow> (Inr xs, v)
      | QuerySet q \<Rightarrow>
          (case fetch d q of
             Inl e \<Rightarrow> (Inl e, v)
           | Inr xs \<Rightarrow> (Inr xs, fill_cache xs v)))"

text \<open>
  \<open>ServerListViewSet.list\<close> for one request. \<open>cache\<close> is the result cache of the class
  attribute \<open>queryset\<close> when the request arrives. The result is the exception or the
  response, together with the attributes at the end.
\<close>

definition initial_view :: "server list option \<Rightarrow> view" where
  "initial_view cache = \<lparr>class_queryset = objects_all cache, self_queryset = None\<rparr>"

definition ServerListViewSet_list ::
  "db \<Rightarrow> server list option \<Rightarrow> request \<Rightarrow> (error + response) \<times> view" where
  "ServerListViewSet_list d cache request =
     (case list_body d request (initial_view cache) of
        (Some e, v) \<Rightarrow> (Inl e, v)
      | (None, v) \<Rightarrow>
          (case serialize d v of
             (Inl e, v') \<Rightarrow> (Inl e, v')
           | (Inr xs, v') \<Rightarrow>
               (Inr \<lparr>instances = xs, context_num_members = with_num_members_of request\<rparr>, v')))"

subsection \<open>Vocabulary for stating the results\<close>

text \<open>The three failures by the names the specification gives them.\<close>

abbreviation AuthenticationRequired :: error where
  "AuthenticationRequired \<equiv> AuthenticationFailed ''You must be logged in to perform this action''"

abbreviation InvalidParameter :: error where
  "InvalidParameter \<equiv> ValidationError ''Invalid server id''"

abbreviation NotFound :: error where
  "NotFound \<equiv> ValidationError ''Server not found''"

text \<open>
  Reference narrowing by category, written from the specification (step 2): without the
  parameter all servers, with it those whose category name is equal to it, in order.
\<close>

definition narrowed_by_category :: "string option \<Rightarrow> server list \<Rightarrow> server list" where
  "narrowed_by_category c ss =
     (case c of None \<Rightarrow> ss | Some x \<Rightarrow> filter (\<lambda>s. name (server.category s) = x) ss)"

text \<open>The order in which the database returns the servers of a query, grouped or not.\<close>

definition ordered :: "db \<Rightarrow> bool \<Rightarrow> server list \<Rightarrow> server list" where
  "ordered d grouped ss = (if grouped then grouped_order d ss else ss)"

text \<open>
  Reference rows, written from the specification (step 5): with the flag every server
  carries the count of its members, without it no count.
\<close>

definition as_rows :: "bool \<Rightarrow> server list \<Rightarrow> row list" where
  "as_rows w ss =
     map (\<lambda>s. \<lparr>obj = s, num_members = (if w then Some (length (member_ids s)) else None)\<rparr>) ss"

text \<open>The quantity step does not raise: \<open>qty\<close> is absent or a non-negative integer.\<close>

definition qty_accepted :: "request \<Rightarrow> bool" where
  "qty_accepted request =
     (case query_params request ''qty'' of
        None \<Rightarrow> True
      | Some q \<Rightarrow> (case py_int q of None \<Rightarrow> False | Some k \<Rightarrow> 0 \<le> k))"

text \<open>
  The slice of the quantity step is taken from the class attribute itself while its
  result cache is filled, which gives a list instead of a queryset.
\<close>

definition slices_cached_list :: "server list option \<Rightarrow> request \<Rightarrow> bool" where
  "slices_cached_list cache request =
     (cache \<noteq> None \<and> query_params request ''category'' = None
      \<and> query_params request ''qty'' \<noteq> None)"

text \<open>The same request without the parameter \<open>qty\<close>.\<close>

definition without_qty :: "request \<Rightarrow> request" where
  "without_qty request = request\<lparr>query_params := (query_params request)(''qty'' := None)\<rparr>"

text \<open>The rows that a value of \<open>self.queryset\<close> holds or selects.\<close>

definition selected :: "db \<Rightarrow> attr \<Rightarrow> row list" where
  "selected d a =
     (case a of
        PyList xs \<Rightarrow> xs
      | QuerySet q \<Rightarrow> (case result_cache q of Some xs \<Rightarrow> xs | None \<Rightarrow> select_rows d q))"


text \<open>
  A table of five servers for the concrete runs, in a database that returns the groups
  of a grouped select in the reverse order of the table.
\<close>

definition example_servers :: "server list" where
  "example_servers =
     [\<lparr>server_id = 1, category = \<lparr>name = ''Gaming''\<rparr>, member_ids = [7, 8]\<rparr>,
      \<lparr>server_id = 2, category = \<lparr>name = ''Music''\<rparr>, member_ids = []\<rparr>,
      \<lparr>server_id = 3, category = \<lparr>name = ''Gaming''\<rparr>, member_ids = [7]\<rparr>,
      \<lparr>server_id = 4, category = \<lparr>name = ''gaming''\<rparr>, member_ids = [9]\<rparr>,
      \<lparr>server_id = 5, category = \<lparr>name = ''Gaming''\<rparr>, member_ids = [8]\<rparr>]"

definition example_db :: db where
  "example_db = \<lparr>table = example_servers, grouped_order = rev\<rparr>"


section \<open>Properties\<close>

subsection \<open>The outcome of each path through the method\<close>

lemmas view_defs =
  filter_map comp_def ServerListViewSet_list_def list_body_def seq_def skip_def raise_def
  assign_def try_except_ValueError_def initial_view_def objects_all_def read_queryset_def
  filter_by_def filter_by_id_param_def filter_method_def slice_to_param_def slice_to_def
  annotate_num_members_def raise_unless_exists_def exists_method_def serialize_def fetch_def
  fill_cache_def select_rows_def take_limit_def int_of_param_def

lemmas ref_defs = as_rows_def narrowed_by_category_def ordered_def

lemmas int_defs =
  py_int_def strip_def is_space_def py_digits_def digit_of_def int_max_str_digits_def

lemma auth_gate_iff:
  "auth_gate r \<longleftrightarrow>
     query_params r ''by_user'' = Some ''true'' \<or>
     (query_params r ''by_serverid'' \<notin> {None, Some ''''} \<and> \<not> is_authenticated (user r))"
  by (cases "query_params r ''by_serverid''") (auto simp: auth_gate_def by_user_of_def)

lemma gate_raises:
  "auth_gate r \<Longrightarrow>
     ServerListViewSet_list d cache r = (Inl AuthenticationRequired, initial_view cache)"
  by (simp add: ServerListViewSet_list_def list_body_def seq_def raise_def)

lemma gate_passes_not_by_user: "\<not> auth_gate r \<Longrightarrow> \<not> by_user_of r"
  by (simp add: auth_gate_def)

lemma no_qty_no_id:
  assumes "\<not> auth_gate r" "query_params r ''qty'' = None" "query_params r ''by_serverid'' = None"
  shows "fst (ServerListViewSet_list d cache r) =
    Inr \<lparr>instances =
           (if query_params r ''category'' = None \<and> \<not> with_num_members_of r \<and> cache \<noteq> None
            then as_rows False (the cache)
            else as_rows (with_num_members_of r)
                   (ordered d (with_num_members_of r)
                      (narrowed_by_category (query_params r ''category'') (table d)))),
         context_num_members = with_num_members_of r\<rparr>"
  using assms gate_passes_not_by_user[OF assms(1)]
  by (cases cache; cases "query_params r ''category''")
    (simp_all add: view_defs ref_defs)

lemma qty_unparseable:
  assumes "\<not> auth_gate r" "query_params r ''qty'' = Some q" "py_int q = None"
  shows "fst (ServerListViewSet_list d cache r) =
    Inl (ValueError ''invalid literal for int() with base 10'')"
  using assms gate_passes_not_by_user[OF assms(1)]
  by (cases cache; cases "query_params r ''category''")
    (simp_all add: view_defs)

lemma qty_negative:
  assumes "\<not> auth_gate r" "query_params r ''qty'' = Some q" "py_int q = Some k" "k < 0"
  shows "fst (ServerListViewSet_list d cache r) =
    Inl (ValueError ''Negative indexing is not supported.'')"
  using assms gate_passes_not_by_user[OF assms(1)]
  by (cases cache; cases "query_params r ''category''")
    (simp_all add: view_defs)

lemma qty_list_no_id:
  assumes "\<not> auth_gate r" "query_params r ''qty'' = Some q" "py_int q = Some k" "0 \<le> k"
    "query_params r ''by_serverid'' = None"
    "query_params r ''category'' = None" "cache = Some xs"
  shows "fst (ServerListViewSet_list d cache r) =
    (if with_num_members_of r
     then Inl (AttributeError ''list object has no attribute annotate'')
     else Inr \<lparr>instances = as_rows False (take (nat k) xs), context_num_members = False\<rparr>)"
  using assms gate_passes_not_by_user[OF assms(1)]
  by (simp add: view_defs ref_defs take_map)

lemma qty_query_no_id:
  assumes "\<not> auth_gate r" "query_params r ''qty'' = Some q" "py_int q = Some k" "0 \<le> k"
    "query_params r ''by_serverid'' = None"
    "query_params r ''category'' \<noteq> None \<or> cache = None"
  shows "fst (ServerListViewSet_list d cache r) =
    (if 9223372036854775807 < k then Inl (DatabaseError ''integer out of range'')
     else Inr \<lparr>instances = as_rows (with_num_members_of r)
                  (take (nat k) (ordered d (with_num_members_of r)
                     (narrowed_by_category (query_params r ''category'') (table d)))),
               context_num_members = with_num_members_of r\<rparr>)"
  using assms gate_passes_not_by_user[OF assms(1)]
  by (cases cache; cases "query_params r ''category''")
    (simp_all add: view_defs ref_defs take_map)

lemma id_unparseable_no_qty:
  assumes "\<not> auth_gate r" "query_params r ''qty'' = None"
    "query_params r ''by_serverid'' = Some sid" "py_int sid = None"
  shows "fst (ServerListViewSet_list d cache r) = Inl InvalidParameter"
  using assms gate_passes_not_by_user[OF assms(1)]
  by (cases cache; cases "query_params r ''category''")
    (simp_all add: view_defs)

lemma id_lookup_no_qty:
  assumes "\<not> auth_gate r" "query_params r ''qty'' = None"
    "query_params r ''by_serverid'' = Some sid" "py_int sid = Some k"
  shows "fst (ServerListViewSet_list d cache r) =
    (let found = filter (\<lambda>s. server_id s = k)
                   (narrowed_by_category (query_params r ''category'') (table d))
     in if found = [] then Inl NotFound
        else Inr \<lparr>instances = as_rows (with_num_members_of r)
                     (ordered d (with_num_members_of r) found),
                  context_num_members = with_num_members_of r\<rparr>)"
  using assms gate_passes_not_by_user[OF assms(1)]
  by (cases cache; cases "query_params r ''category''")
    (simp_all add: view_defs ref_defs Let_def conj_commute)

lemma id_after_list_slice:
  assumes "\<not> auth_gate r" "query_params r ''qty'' = Some q" "py_int q = Some n" "0 \<le> n"
    "query_params r ''by_serverid'' = Some sid"
    "query_params r ''category'' = None" "cache = Some xs"
  shows "fst (ServerListViewSet_list d cache r) =
    (if with_num_members_of r
     then Inl (AttributeError ''list object has no attribute annotate'')
     else Inl (AttributeError ''list object has no attribute filter''))"
  using assms gate_passes_not_by_user[OF assms(1)]
  by (simp add: view_defs)

lemma id_unparseable_qty:
  assumes "\<not> auth_gate r" "query_params r ''qty'' = Some q" "py_int q = Some n" "0 \<le> n"
    "query_params r ''by_serverid'' = Some sid" "py_int sid = None"
    "query_params r ''category'' \<noteq> None \<or> cache = None"
  shows "fst (ServerListViewSet_list d cache r) = Inl InvalidParameter"
  using assms gate_passes_not_by_user[OF assms(1)]
  by (cases cache; cases "query_params r ''category''")
    (simp_all add: view_defs)

lemma id_after_slice:
  assumes "\<not> auth_gate r" "query_params r ''qty'' = Some q" "py_int q = Some n" "0 \<le> n"
    "query_params r ''by_serverid'' = Some sid" "py_int sid = Some k"
    "query_params r ''category'' \<noteq> None \<or> cache = None"
  shows "fst (ServerListViewSet_list d cache r) =
    Inl (TypeError ''Cannot filter a query once a slice has been taken.'')"
  using assms gate_passes_not_by_user[OF assms(1)]
  by (cases cache; cases "query_params r ''category''")
    (simp_all add: view_defs)

subsection \<open>Auxiliary facts\<close>


lemma as_rows_empty_iff: "as_rows w ss = [] \<longleftrightarrow> ss = []"
  by (simp add: as_rows_def)

lemma subseq_set_subset: "subseq xs ys \<Longrightarrow> set xs \<subseteq> set ys"
proof
  fix x assume a: "subseq xs ys" "x \<in> set xs"
  obtain y where "y \<in> set ys" "x = y" using list_emb_set[OF a] by blast
  then show "x \<in> set ys" by simp
qed



lemma py_int_empty: "py_int [] = None"
  by (simp add: py_int_def strip_def)

lemma qty_accepted_cases:
  assumes "qty_accepted r"
  obtains "query_params r ''qty'' = None"
  | q n where "query_params r ''qty'' = Some q" "py_int q = Some n" "0 \<le> n"
  using assms by (auto simp: qty_accepted_def split: option.splits)

lemma outcome_errI:
  assumes "x = Inl e" and "\<And>m. e \<noteq> AuthenticationFailed m"
  shows "(\<forall>m. x \<noteq> Inl (AuthenticationFailed m))
    \<and> (\<forall>resp. x = Inr resp \<longrightarrow>
          (\<exists>ss. resp = \<lparr>instances = as_rows w ss, context_num_members = w\<rparr>))"
  using assms by auto

lemma outcome_respI:
  assumes "x = Inr \<lparr>instances = as_rows w ss, context_num_members = w\<rparr>"
  shows "(\<forall>m. x \<noteq> Inl (AuthenticationFailed m))
    \<and> (\<forall>resp. x = Inr resp \<longrightarrow>
          (\<exists>ss. resp = \<lparr>instances = as_rows w ss, context_num_members = w\<rparr>))"
  using assms by auto

text \<open>
  Past the gate the method never raises \<open>AuthenticationFailed\<close>, and a response carries
  rows that are annotated exactly when the flag is set.
\<close>

lemma after_gate_outcome:
  assumes gate: "\<not> auth_gate r"
  shows "(\<forall>m. fst (ServerListViewSet_list d cache r) \<noteq> Inl (AuthenticationFailed m))
    \<and> (\<forall>resp. fst (ServerListViewSet_list d cache r) = Inr resp \<longrightarrow>
          (\<exists>ss. resp = \<lparr>instances = as_rows (with_num_members_of r) ss,
                         context_num_members = with_num_members_of r\<rparr>))"
proof (cases "query_params r ''qty''")
  case None
  note qty = this
  show ?thesis
  proof (cases "query_params r ''by_serverid''")
    case None
    show ?thesis
    proof (cases "query_params r ''category'' = None \<and> \<not> with_num_members_of r \<and> cache \<noteq> None")
      case True
      then show ?thesis
        using no_qty_no_id[OF gate qty None, of d cache]
        by (intro outcome_respI[where ss = "the cache"]) simp
    next
      case False
      then show ?thesis
        using no_qty_no_id[OF gate qty None, of d cache]
        by (intro outcome_respI[where ss = "ordered d (with_num_members_of r)
              (narrowed_by_category (query_params r ''category'') (table d))"]) auto
    qed
  next
    case (Some sid)
    note sid = this
    show ?thesis
    proof (cases "py_int sid")
      case None
      show ?thesis
        by (rule outcome_errI[OF id_unparseable_no_qty[OF gate qty sid None]]) simp
    next
      case (Some k)
      let ?found = "filter (\<lambda>s. server_id s = k)
                      (narrowed_by_category (query_params r ''category'') (table d))"
      show ?thesis
      proof (cases "?found = []")
        case True
        then have "fst (ServerListViewSet_list d cache r) = Inl NotFound"
          by (simp add: id_lookup_no_qty[OF gate qty sid Some] Let_def)
        then show ?thesis by (rule outcome_errI) simp
      next
        case False
        then have "fst (ServerListViewSet_list d cache r) =
            Inr \<lparr>instances = as_rows (with_num_members_of r)
                    (ordered d (with_num_members_of r) ?found),
                 context_num_members = with_num_members_of r\<rparr>"
          by (simp add: id_lookup_no_qty[OF gate qty sid Some] Let_def)
        then show ?thesis by (rule outcome_respI)
      qed
    qed
  qed
next
  case (Some q)
  note qty = this
  show ?thesis
  proof (cases "py_int q")
    case None
    show ?thesis
      by (rule outcome_errI[OF qty_unparseable[OF gate qty None]]) simp
  next
    case (Some n)
    note pq = this
    show ?thesis
    proof (cases "n < 0")
      case True
      show ?thesis
        by (rule outcome_errI[OF qty_negative[OF gate qty pq True]]) simp
    next
      case False
      then have n0: "0 \<le> n" by simp
      show ?thesis
      proof (cases "query_params r ''category'' = None \<and> cache \<noteq> None")
        case True
        then obtain xs where cat: "query_params r ''category'' = None" and c: "cache = Some xs"
          by auto
        show ?thesis
        proof (cases "query_params r ''by_serverid''")
          case None
          show ?thesis
          proof (cases "with_num_members_of r")
            case True
            then have "fst (ServerListViewSet_list d cache r) =
                Inl (AttributeError ''list object has no attribute annotate'')"
              by (simp add: qty_list_no_id[OF gate qty pq n0 None cat c])
            then show ?thesis by (rule outcome_errI) simp
          next
            case False
            then have "fst (ServerListViewSet_list d cache r) =
                Inr \<lparr>instances = as_rows (with_num_members_of r) (take (nat n) xs),
                     context_num_members = with_num_members_of r\<rparr>"
              by (simp add: qty_list_no_id[OF gate qty pq n0 None cat c])
            then show ?thesis by (rule outcome_respI)
          qed
        next
          case (Some sid)
          have "fst (ServerListViewSet_list d cache r) =
              Inl (AttributeError (if with_num_members_of r
                     then ''list object has no attribute annotate''
                     else ''list object has no attribute filter''))"
            by (simp add: id_after_list_slice[OF gate qty pq n0 Some cat c])
          then show ?thesis by (rule outcome_errI) simp
        qed
      next
        case False
        then have nolist: "query_params r ''category'' \<noteq> None \<or> cache = None" by simp
        show ?thesis
        proof (cases "query_params r ''by_serverid''")
          case None
          show ?thesis
          proof (cases "9223372036854775807 < n")
            case True
            then have "fst (ServerListViewSet_list d cache r) =
                Inl (DatabaseError ''integer out of range'')"
              by (simp add: qty_query_no_id[OF gate qty pq n0 None nolist])
            then show ?thesis by (rule outcome_errI) simp
          next
            case False
            then have "fst (ServerListViewSet_list d cache r) =
                Inr \<lparr>instances = as_rows (with_num_members_of r)
                        (take (nat n) (ordered d (with_num_members_of r)
                           (narrowed_by_category (query_params r ''category'') (table d)))),
                     context_num_members = with_num_members_of r\<rparr>"
              by (simp add: qty_query_no_id[OF gate qty pq n0 None nolist])
            then show ?thesis by (rule outcome_respI)
          qed
        next
          case (Some sid)
          note sid = this
          show ?thesis
          proof (cases "py_int sid")
            case None
            show ?thesis
              by (rule outcome_errI[OF id_unparseable_qty[OF gate qty pq n0 sid None nolist]]) simp
          next
            case (Some k)
            show ?thesis
              by (rule outcome_errI[OF id_after_slice[OF gate qty pq n0 sid Some nolist]]) simp
          qed
        qed
      qed
    qed
  qed
qed

lemma after_gate_not_authentication:
  assumes "\<not> auth_gate r"
  shows "fst (ServerListViewSet_list d cache r) \<noteq> Inl (AuthenticationFailed m)"
  using after_gate_outcome[OF assms, of d cache] by blast

lemma gate_iff_outcome:
  "auth_gate r \<longleftrightarrow> fst (ServerListViewSet_list d cache r) = Inl AuthenticationRequired"
  using gate_raises[of r d cache] after_gate_not_authentication[of r d cache] by auto












section \<open>The claims\<close>

subsection \<open>The authentication gate\<close>

text \<open>
  C1, as stated, at a concrete request: an anonymous requester sends \<open>by_serverid\<close>
  as the empty string. The parameter is present and the requester is anonymous, yet the
  method does not raise \<open>AuthenticationFailed\<close>: the condition tests the truth value of
  the string, and the empty string is false.
\<close>

theorem C1_counterexample:
  "\<not> (fst (ServerListViewSet_list example_db None
              \<lparr>query_params = [''by_serverid'' \<mapsto> ''''], user = AnonymousUser\<rparr>)
          = Inl AuthenticationRequired
        \<longleftrightarrow>
          (query_params \<lparr>query_params = [''by_serverid'' \<mapsto> ''''], user = AnonymousUser\<rparr>
             ''by_user'' = Some ''true''
           \<or> (query_params \<lparr>query_params = [''by_serverid'' \<mapsto> ''''], user = AnonymousUser\<rparr>
                 ''by_serverid'' \<noteq> None
               \<and> \<not> is_authenticated
                     (user \<lparr>query_params = [''by_serverid'' \<mapsto> ''''], user = AnonymousUser\<rparr>))))"
  using gate_iff_outcome[of "\<lparr>query_params = [''by_serverid'' \<mapsto> ''''], user = AnonymousUser\<rparr>"
      example_db None]
  by (simp add: auth_gate_def by_user_of_def)

text \<open>
  C1 (amended): the method raises \<open>AuthenticationFailed\<close> if and only if \<open>by_user\<close> is
  \<open>"true"\<close>, or \<open>by_serverid\<close> is present and not the empty string and the requester is
  anonymous. When it raises, no filtering step has run: nothing has been assigned to
  \<open>self.queryset\<close>, which is still the class attribute as the request found it.
\<close>

theorem C1_auth_gate:
  "(fst (ServerListViewSet_list d cache r) = Inl AuthenticationRequired
      \<longleftrightarrow> (query_params r ''by_user'' = Some ''true''
           \<or> (query_params r ''by_serverid'' \<notin> {None, Some ''''}
               \<and> \<not> is_authenticated (user r))))
   \<and> (fst (ServerListViewSet_list d cache r) = Inl AuthenticationRequired
        \<longrightarrow> snd (ServerListViewSet_list d cache r) = initial_view cache)"
proof
  show "fst (ServerListViewSet_list d cache r) = Inl AuthenticationRequired
      \<longleftrightarrow> (query_params r ''by_user'' = Some ''true''
           \<or> (query_params r ''by_serverid'' \<notin> {None, Some ''''}
               \<and> \<not> is_authenticated (user r)))"
    using gate_iff_outcome[of r d cache] auth_gate_iff[of r] by blast
next
  show "fst (ServerListViewSet_list d cache r) = Inl AuthenticationRequired
        \<longrightarrow> snd (ServerListViewSet_list d cache r) = initial_view cache"
  proof
    assume "fst (ServerListViewSet_list d cache r) = Inl AuthenticationRequired"
    then have "auth_gate r" using gate_iff_outcome[of r d cache] by simp
    then show "snd (ServerListViewSet_list d cache r) = initial_view cache"
      by (simp add: gate_raises)
  qed
qed

text \<open>The gate on a request with \<open>by_user=true\<close>.\<close>

theorem C1_auth_gate_witness:
  "fst (ServerListViewSet_list example_db None
          \<lparr>query_params = [''by_user'' \<mapsto> ''true''], user = User 7\<rparr>)
     = Inl AuthenticationRequired
   \<and> snd (ServerListViewSet_list example_db None
            \<lparr>query_params = [''by_user'' \<mapsto> ''true''], user = User 7\<rparr>)
     = initial_view None"
  using C1_auth_gate[of example_db None "\<lparr>query_params = [''by_user'' \<mapsto> ''true''], user = User 7\<rparr>"]
  by simp

text \<open>
  C2: an authenticated requester (user 7) combines \<open>category=Gaming\<close>, \<open>qty=2\<close> and
  \<open>by_user=true\<close>. The first disjunct of the gate condition does not look at the
  requester, so the method raises \<open>AuthenticationFailed\<close> and none of the three filters
  runs.
\<close>

theorem C2_authenticated_by_user_refused:
  "ServerListViewSet_list example_db None
     \<lparr>query_params = [''category'' \<mapsto> ''Gaming'', ''qty'' \<mapsto> ''2'', ''by_user'' \<mapsto> ''true''],
      user = User 7\<rparr>
   = (Inl AuthenticationRequired, initial_view None)"
  by (rule gate_raises) (simp add: auth_gate_def by_user_of_def)

text \<open>
  C3, as stated, at a concrete request: \<open>by_serverid=5\<close>, anonymous requester, no
  \<open>by_user\<close>. The request does not pass the gate: the method raises
  \<open>AuthenticationFailed\<close> and \<open>by_serverid\<close> is never resolved.
\<close>

theorem C3_counterexample:
  "query_params \<lparr>query_params = [''by_serverid'' \<mapsto> ''5''], user = AnonymousUser\<rparr> ''by_user'' = None
   \<and> ServerListViewSet_list example_db None
        \<lparr>query_params = [''by_serverid'' \<mapsto> ''5''], user = AnonymousUser\<rparr>
     = (Inl AuthenticationRequired, initial_view None)"
  by (simp add: gate_raises auth_gate_def by_user_of_def)

text \<open>
  C3 (amended): for an anonymous requester without \<open>by_user\<close>, a request whose
  \<open>by_serverid\<close> is present and not empty is stopped by the gate with
  \<open>AuthenticationFailed\<close> before anything is filtered; only the empty string passes the
  gate.
\<close>

theorem C3_anonymous_by_serverid:
  assumes "query_params r ''by_serverid'' = Some sid"
    and "user r = AnonymousUser"
    and "query_params r ''by_user'' = None"
  shows "(sid \<noteq> [] \<longrightarrow>
            ServerListViewSet_list d cache r = (Inl AuthenticationRequired, initial_view cache))
         \<and> (sid = [] \<longrightarrow>
            fst (ServerListViewSet_list d cache r) \<noteq> Inl AuthenticationRequired)"
proof -
  have "auth_gate r \<longleftrightarrow> sid \<noteq> []"
    using assms by (simp add: auth_gate_iff)
  then show ?thesis
    using gate_raises[of r d cache] gate_iff_outcome[of r d cache] by auto
qed

text \<open>The gate on \<open>by_serverid=5\<close> from an anonymous requester.\<close>

theorem C3_anonymous_by_serverid_witness:
  "ServerListViewSet_list example_db None
     \<lparr>query_params = [''by_serverid'' \<mapsto> ''5''], user = AnonymousUser\<rparr>
   = (Inl AuthenticationRequired, initial_view None)"
  using C3_anonymous_by_serverid[of "\<lparr>query_params = [''by_serverid'' \<mapsto> ''5''], user = AnonymousUser\<rparr>"
      "''5''" example_db None]
  by simp

subsection \<open>The lookup by id\<close>




subsection \<open>The quantity slice\<close>

text \<open>
  C5, as stated, at a concrete request: \<open>qty=-1\<close> is a non-positive quantity, and it
  is not tolerated: the slice \<open>[:-1]\<close> of a queryset raises.
\<close>

theorem C5_counterexample:
  "py_int ''-1'' = Some (- 1)
   \<and> fst (ServerListViewSet_list example_db None
            \<lparr>query_params = [''qty'' \<mapsto> ''-1''], user = AnonymousUser\<rparr>)
       = Inl (ValueError ''Negative indexing is not supported.'')"
proof -
  have p: "py_int ''-1'' = Some (- 1)"
    by (simp add: int_defs)
  have "\<not> auth_gate \<lparr>query_params = [''qty'' \<mapsto> ''-1''], user = AnonymousUser\<rparr>"
    by (simp add: auth_gate_def by_user_of_def)
  from qty_negative[OF this _ p] p show ?thesis by simp
qed

text \<open>
  C5 (amended): when \<open>qty\<close> is an integer \<open>k\<close> and the gate has not raised, a negative
  \<open>k\<close> makes the slice raise. For a non-negative \<open>k\<close> that fits a 64-bit integer and
  without \<open>by_serverid\<close>, the response is the first \<open>k\<close> rows, in order, of the
  response that the same request gets without \<open>qty\<close> (all of them when \<open>k\<close> exceeds
  their number, none for \<open>k = 0\<close>), unless the member count is requested on a list
  sliced from the cached class attribute.
\<close>

theorem C5_qty_truncation:
  assumes "fst (ServerListViewSet_list d cache r) \<noteq> Inl AuthenticationRequired"
    and "query_params r ''qty'' = Some q"
    and "py_int q = Some k"
  shows "(k < 0 \<longrightarrow>
            fst (ServerListViewSet_list d cache r)
              = Inl (ValueError ''Negative indexing is not supported.''))
    \<and> (0 \<le> k \<and> k < 2 ^ 63 \<and> query_params r ''by_serverid'' = None
        \<and> \<not> (with_num_members_of r \<and> slices_cached_list cache r) \<longrightarrow>
          (case fst (ServerListViewSet_list d cache (without_qty r)) of
             Inl e \<Rightarrow> False
           | Inr whole \<Rightarrow>
               fst (ServerListViewSet_list d cache r) =
                 Inr \<lparr>instances = take (nat k) (instances whole),
                      context_num_members = context_num_members whole\<rparr>))"
proof -
  let ?w = "with_num_members_of r"
  let ?base = "ordered d ?w (narrowed_by_category (query_params r ''category'') (table d))"
  have gate: "\<not> auth_gate r"
    using assms(1) gate_iff_outcome[of r d cache] by simp
  have gate': "\<not> auth_gate (without_qty r)"
    using gate by (simp add: auth_gate_def by_user_of_def without_qty_def)
  have neg: "fst (ServerListViewSet_list d cache r)
              = Inl (ValueError ''Negative indexing is not supported.'')" if "k < 0"
    by (simp add: qty_negative[OF gate assms(2,3) that])
  have resp: "case fst (ServerListViewSet_list d cache (without_qty r)) of
             Inl e \<Rightarrow> False
           | Inr whole \<Rightarrow>
               fst (ServerListViewSet_list d cache r) =
                 Inr \<lparr>instances = take (nat k) (instances whole),
                      context_num_members = context_num_members whole\<rparr>"
    if k0: "0 \<le> k" and k63: "k < 2 ^ 63" and sid: "query_params r ''by_serverid'' = None"
      and nolist: "\<not> (?w \<and> slices_cached_list cache r)"
  proof -
    have whole: "fst (ServerListViewSet_list d cache (without_qty r)) =
        Inr \<lparr>instances =
               (if query_params r ''category'' = None \<and> \<not> ?w \<and> cache \<noteq> None
                then as_rows False (the cache) else as_rows ?w ?base),
             context_num_members = ?w\<rparr>"
      using no_qty_no_id[OF gate', of d cache] sid
      by (simp add: without_qty_def with_num_members_of_def)
    show ?thesis
    proof (cases "query_params r ''category'' = None \<and> cache \<noteq> None")
      case True
      then obtain xs where cat: "query_params r ''category'' = None" and c: "cache = Some xs"
        by auto
      have "\<not> ?w"
        using nolist cat c assms(2) by (simp add: slices_cached_list_def)
      then show ?thesis
        using whole cat c qty_list_no_id[OF gate assms(2,3) k0 sid cat c, of d]
        by (simp add: as_rows_def take_map)
    next
      case False
      then have nl: "query_params r ''category'' \<noteq> None \<or> cache = None" by simp
      have "\<not> 9223372036854775807 < k" using k63 by simp
      then show ?thesis
        using whole False qty_query_no_id[OF gate assms(2,3) k0 sid nl, of d]
        by (auto simp: as_rows_def take_map)
    qed
  qed
  show ?thesis
    using neg resp by blast
qed

text \<open>\<open>qty=2\<close>, \<open>qty=100\<close> and \<open>qty=0\<close> on the five servers.\<close>

theorem C5_qty_truncation_witness:
  "fst (ServerListViewSet_list example_db None
          \<lparr>query_params = [''qty'' \<mapsto> ''2''], user = AnonymousUser\<rparr>)
     = Inr \<lparr>instances = as_rows False (take 2 example_servers), context_num_members = False\<rparr>
   \<and> fst (ServerListViewSet_list example_db None
          \<lparr>query_params = [''qty'' \<mapsto> ''100''], user = AnonymousUser\<rparr>)
     = Inr \<lparr>instances = as_rows False example_servers, context_num_members = False\<rparr>
   \<and> fst (ServerListViewSet_list example_db None
          \<lparr>query_params = [''qty'' \<mapsto> ''0''], user = AnonymousUser\<rparr>)
     = Inr \<lparr>instances = [], context_num_members = False\<rparr>"
proof -
  have g: "fst (ServerListViewSet_list example_db None
                  \<lparr>query_params = [''qty'' \<mapsto> q], user = AnonymousUser\<rparr>)
            \<noteq> Inl AuthenticationRequired" for q
    using gate_iff_outcome[of "\<lparr>query_params = [''qty'' \<mapsto> q], user = AnonymousUser\<rparr>"
        example_db None]
    by (simp add: auth_gate_def by_user_of_def)
  have whole: "fst (ServerListViewSet_list example_db None
                  (without_qty \<lparr>query_params = [''qty'' \<mapsto> q], user = AnonymousUser\<rparr>))
      = Inr \<lparr>instances = as_rows False example_servers, context_num_members = False\<rparr>" for q
    by (subst no_qty_no_id)
      (simp_all add: without_qty_def auth_gate_def by_user_of_def with_num_members_of_def
        ref_defs example_db_def)
  have p: "py_int ''2'' = Some 2" "py_int ''100'' = Some 100" "py_int ''0'' = Some 0"
    by (simp_all add: int_defs)
  show ?thesis
    using C5_qty_truncation[OF g _ p(1), of "''2''"]
      C5_qty_truncation[OF g _ p(2), of "''100''"]
      C5_qty_truncation[OF g _ p(3), of "''0''"]
    by (simp add: whole with_num_members_of_def example_servers_def as_rows_def)
qed

subsection \<open>The member count\<close>

text \<open>
  C6: in every response, the context entry \<open>num_members\<close> handed to the serializer is
  true exactly when the parameter \<open>with_num_members\<close> is the string \<open>"True"\<close>, and each
  returned row carries the count of its members in that case and no count otherwise (so
  \<open>"true"\<close> in lower case does not annotate).
\<close>

theorem C6_member_count_annotation:
  assumes "fst (ServerListViewSet_list d cache r) = Inr resp"
  shows "context_num_members resp = (query_params r ''with_num_members'' = Some ''True'')
    \<and> (\<forall>x \<in> set (instances resp).
          num_members x =
            (if query_params r ''with_num_members'' = Some ''True''
             then Some (length (member_ids (obj x))) else None))"
proof -
  have gate: "\<not> auth_gate r"
    using assms gate_raises[of r d cache] by auto
  from after_gate_outcome[OF gate, of d cache] assms obtain ss
    where "resp = \<lparr>instances = as_rows (with_num_members_of r) ss,
                   context_num_members = with_num_members_of r\<rparr>"
    by blast
  then show ?thesis
    by (auto simp: as_rows_def with_num_members_of_def)
qed

text \<open>\<open>with_num_members=True\<close> against \<open>with_num_members=true\<close> on the five servers.\<close>

theorem C6_member_count_annotation_witness:
  "fst (ServerListViewSet_list example_db None
          \<lparr>query_params = [''with_num_members'' \<mapsto> ''True''], user = AnonymousUser\<rparr>)
     = Inr \<lparr>instances = as_rows True (rev example_servers), context_num_members = True\<rparr>
   \<and> map num_members (as_rows True (rev example_servers))
       = [Some 1, Some 1, Some 1, Some 0, Some 2]
   \<and> fst (ServerListViewSet_list example_db None
          \<lparr>query_params = [''with_num_members'' \<mapsto> ''true''], user = AnonymousUser\<rparr>)
     = Inr \<lparr>instances = as_rows False example_servers, context_num_members = False\<rparr>
   \<and> map num_members (as_rows False example_servers) = [None, None, None, None, None]"
proof -
  have a: "fst (ServerListViewSet_list example_db None
          \<lparr>query_params = [''with_num_members'' \<mapsto> ''True''], user = AnonymousUser\<rparr>)
     = Inr \<lparr>instances = as_rows True (rev example_servers), context_num_members = True\<rparr>"
    by (subst no_qty_no_id)
      (simp_all add: auth_gate_def by_user_of_def with_num_members_of_def
        narrowed_by_category_def ordered_def example_db_def)
  have b: "fst (ServerListViewSet_list example_db None
          \<lparr>query_params = [''with_num_members'' \<mapsto> ''true''], user = AnonymousUser\<rparr>)
     = Inr \<lparr>instances = as_rows False example_servers, context_num_members = False\<rparr>"
    by (subst no_qty_no_id)
      (simp_all add: auth_gate_def by_user_of_def with_num_members_of_def
        narrowed_by_category_def ordered_def example_db_def)
  show ?thesis
    using C6_member_count_annotation[OF a] C6_member_count_annotation[OF b] a b
    by (simp add: as_rows_def example_servers_def)
qed

subsection \<open>The category filter\<close>




subsection \<open>The lookup after earlier filters\<close>

text \<open>
  C8, as stated, at a concrete request: an anonymous requester combines
  \<open>category=Gaming\<close> with \<open>by_serverid=2\<close>. Server 2 exists in the table and is excluded
  by the category filter, but the outcome is not \<open>Server not found\<close>: the gate raises first.
\<close>

theorem C8_counterexample:
  "2 \<in> server_id ` set (table example_db)
   \<and> 2 \<notin> server_id ` set (narrowed_by_category (Some ''Gaming'') (table example_db))
   \<and> fst (ServerListViewSet_list example_db None
            \<lparr>query_params = [''category'' \<mapsto> ''Gaming'', ''by_serverid'' \<mapsto> ''2''],
             user = AnonymousUser\<rparr>)
       \<noteq> Inl NotFound"
  by (simp add: gate_raises auth_gate_def by_user_of_def narrowed_by_category_def
      example_db_def example_servers_def)

text \<open>
  C8 (amended): for an authenticated requester without \<open>by_user\<close> and without \<open>qty\<close>, an
  integer \<open>by_serverid\<close> is looked up in the collection already narrowed by \<open>category\<close>:
  the method fails with \<open>Server not found\<close> exactly when no server of the narrowed
  collection has that id, whatever the table holds.
\<close>

theorem C8_lookup_in_narrowed_collection:
  assumes "query_params r ''by_serverid'' = Some sid"
    and "py_int sid = Some k"
    and "query_params r ''by_user'' \<noteq> Some ''true''"
    and "is_authenticated (user r)"
    and "query_params r ''qty'' = None"
  shows "fst (ServerListViewSet_list d cache r) = Inl NotFound
           \<longleftrightarrow> k \<notin> server_id ` set (narrowed_by_category (query_params r ''category'') (table d))"
proof -
  have gate: "\<not> auth_gate r"
    using assms(3,4) by (simp add: auth_gate_iff)
  show ?thesis
    by (auto simp: id_lookup_no_qty[OF gate assms(5,1,2)] Let_def filter_empty_conv)
qed

text \<open>Server 2 is in the table but not among the \<open>Gaming\<close> servers.\<close>

theorem C8_lookup_in_narrowed_collection_witness:
  "2 \<in> server_id ` set (table example_db)
   \<and> fst (ServerListViewSet_list example_db None
            \<lparr>query_params = [''category'' \<mapsto> ''Gaming'', ''by_serverid'' \<mapsto> ''2''],
             user = User 7\<rparr>)
       = Inl NotFound"
proof -
  have p: "py_int ''2'' = Some 2"
    by (simp add: int_defs)
  show ?thesis
    using C8_lookup_in_narrowed_collection[OF _ p,
        of "\<lparr>query_params = [''category'' \<mapsto> ''Gaming'', ''by_serverid'' \<mapsto> ''2''], user = User 7\<rparr>"
        example_db None]
    by (simp add: narrowed_by_category_def example_db_def example_servers_def)
qed

subsection \<open>A quantity that is not an integer\<close>

text \<open>
  C9, as stated, at a concrete request: \<open>qty=abc\<close> with \<open>by_serverid=5\<close> from an
  anonymous requester fails with \<open>AuthenticationFailed\<close>, one of the documented kinds:
  the gate comes before the conversion of \<open>qty\<close>.
\<close>

theorem C9_counterexample:
  "py_int ''abc'' = None
   \<and> fst (ServerListViewSet_list example_db None
            \<lparr>query_params = [''by_serverid'' \<mapsto> ''5'', ''qty'' \<mapsto> ''abc''],
             user = AnonymousUser\<rparr>)
       = Inl AuthenticationRequired"
  by (simp add: gate_raises auth_gate_def by_user_of_def int_defs)

text \<open>
  C9 (amended): for every request that passes the gate, a \<open>qty\<close> that is present and
  that \<open>int\<close> rejects makes the method raise the \<open>ValueError\<close> of \<open>int\<close>, uncaught:
  no response, and none of the three documented failures.
\<close>

theorem C9_unparseable_qty:
  assumes "query_params r ''qty'' = Some q"
    and "py_int q = None"
    and "query_params r ''by_user'' \<noteq> Some ''true''"
    and "is_authenticated (user r) \<or> query_params r ''by_serverid'' \<in> {None, Some ''''}"
  shows "fst (ServerListViewSet_list d cache r)
           = Inl (ValueError ''invalid literal for int() with base 10'')"
proof -
  have gate: "\<not> auth_gate r"
    using assms(3,4) by (auto simp: auth_gate_iff)
  show ?thesis
    by (simp add: qty_unparseable[OF gate assms(1,2)])
qed

text \<open>\<open>qty=abc\<close>, and \<open>qty\<close> with the control character 31 before a digit.\<close>

theorem C9_unparseable_qty_witness:
  "fst (ServerListViewSet_list example_db None
          \<lparr>query_params = [''qty'' \<mapsto> ''abc''], user = AnonymousUser\<rparr>)
     = Inl (ValueError ''invalid literal for int() with base 10'')
   \<and> fst (ServerListViewSet_list example_db None
          \<lparr>query_params = [''qty'' \<mapsto> [CHR 0x1F, CHR ''3'']], user = AnonymousUser\<rparr>)
     = Inl (ValueError ''invalid literal for int() with base 10'')"
proof -
  have p: "py_int ''abc'' = None" "py_int [CHR 0x1F, CHR ''3''] = None"
    by (simp_all add: int_defs)
  show ?thesis
    using C9_unparseable_qty[OF _ p(1),
        of "\<lparr>query_params = [''qty'' \<mapsto> ''abc''], user = AnonymousUser\<rparr>" example_db None]
      C9_unparseable_qty[OF _ p(2),
        of "\<lparr>query_params = [''qty'' \<mapsto> [CHR 0x1F, CHR ''3'']], user = AnonymousUser\<rparr>"
        example_db None]
    by simp
qed

subsection \<open>The empty \<open>by_serverid\<close>\<close>

text \<open>
  C10, as stated, at a concrete request: with \<open>by_user=true\<close> next to the empty
  \<open>by_serverid\<close>, an anonymous requester is stopped by the gate.
\<close>

theorem C10_counterexample:
  "fst (ServerListViewSet_list example_db None
          \<lparr>query_params = [''by_user'' \<mapsto> ''true'', ''by_serverid'' \<mapsto> ''''],
           user = AnonymousUser\<rparr>)
     = Inl AuthenticationRequired"
  by (simp add: gate_raises auth_gate_def by_user_of_def)

text \<open>
  C10 (amended): for every request where \<open>by_serverid\<close> is the empty string, \<open>by_user\<close>
  is not \<open>"true"\<close>, the quantity step does not raise and the slice was not taken from
  the cached class attribute, the gate is passed whoever the requester is, the lookup
  branch is entered, and the method fails with \<open>Invalid server id\<close>.
\<close>

theorem C10_empty_by_serverid:
  assumes "query_params r ''by_serverid'' = Some ''''"
    and "query_params r ''by_user'' \<noteq> Some ''true''"
    and "qty_accepted r"
    and "\<not> slices_cached_list cache r"
  shows "fst (ServerListViewSet_list d cache r) \<noteq> Inl AuthenticationRequired
    \<and> fst (ServerListViewSet_list d cache r) = Inl InvalidParameter"
proof -
  have gate: "\<not> auth_gate r"
    using assms(1,2) by (simp add: auth_gate_iff)
  have "fst (ServerListViewSet_list d cache r) = Inl InvalidParameter"
    using assms(3)
  proof (cases rule: qty_accepted_cases)
    case 1
    then show ?thesis
      by (simp add: id_unparseable_no_qty[OF gate _ assms(1) py_int_empty])
  next
    case (2 q n)
    then have "query_params r ''category'' \<noteq> None \<or> cache = None"
      using assms(4) by (auto simp: slices_cached_list_def)
    then show ?thesis
      using 2 by (simp add: id_unparseable_qty[OF gate _ _ _ assms(1) py_int_empty])
  qed
  then show ?thesis by simp
qed

text \<open>The empty \<open>by_serverid\<close> from an anonymous requester.\<close>

theorem C10_empty_by_serverid_witness:
  "fst (ServerListViewSet_list example_db None
          \<lparr>query_params = [''by_serverid'' \<mapsto> ''''], user = AnonymousUser\<rparr>)
     = Inl InvalidParameter"
  using C10_empty_by_serverid[of "\<lparr>query_params = [''by_serverid'' \<mapsto> ''''], user = AnonymousUser\<rparr>"
      None example_db]
  by (simp add: qty_accepted_def slices_cached_list_def)

end
